theory Spec2Isabelle
  imports Complex_Main
begin

section \<open>The colorcss library of ExportHtml\<close>

text \<open>
  A shallow embedding of \<^verbatim>\<open>lib/colorcss\<close> (\<^verbatim>\<open>util.py\<close>, \<^verbatim>\<open>base.py\<close>,
  \<^verbatim>\<open>rgb.py\<close>, \<^verbatim>\<open>hsl.py\<close>, \<^verbatim>\<open>hwb.py\<close>, \<^verbatim>\<open>__init__.py\<close>).

  Numbers. A Python float is modelled as a \<^typ>\<open>real\<close>: arithmetic is exact, and the
  values \<^verbatim>\<open>nan\<close>, \<^verbatim>\<open>inf\<close> and \<^verbatim>\<open>-inf\<close> are outside the model. Every statement below
  that speaks of a channel value is a statement about this exact arithmetic.

  Strings. A Python \<^verbatim>\<open>str\<close> is modelled as a \<^typ>\<open>string\<close> whose characters are the code
  points below 256.

  Errors. Every exception the library can raise is a value of \<open>error\<close>; a function that
  can raise returns \<open>error + 'a\<close>, with \<open>Inl\<close> for the exception.
\<close>

subsection \<open>Exceptions and module namespaces\<close>

datatype error =
    NameError string
  | TypeError
  | ValueError
  | ZeroDivisionError
  | IndexError
  | AssertionError
  | AttributeError string
  | OverflowError
  | InvalidOperation

text \<open>Sequencing of two computations that may raise.\<close>

definition bindE :: "error + 'a \<Rightarrow> ('a \<Rightarrow> error + 'b) \<Rightarrow> error + 'b" where
  "bindE m f = (case m of Inl e \<Rightarrow> Inl e | Inr v \<Rightarrow> f v)"

text \<open>
  The global names each module binds when it is imported (its imports, assignments,
  classes and functions), in source order. None of the names looked up below is a
  builtin, so a name that is not in the module's list raises \<^verbatim>\<open>NameError\<close>.
\<close>

definition util_globals :: "string list" where
  "util_globals =
    [''re'', ''rgb_to_hls'', ''hls_to_rgb'', ''rgb_to_hsv'', ''hsv_to_rgb'', ''decimal'',
     ''sublime'', ''HSL_WORKAROUND'', ''RGB_CHANNEL_SCALE'', ''HUE_SCALE'', ''SCALE_PERCENT'',
     ''CONVERT_TURN'', ''CONVERT_GRAD'', ''CS_RGB'', ''CS_HSL'', ''CS_HWB'',
     ''OP_NULL'', ''OP_SCALE'', ''OP_ADD'', ''OP_SUB'',
     ''RE_CHAN_SPLIT'', ''RE_FLOAT_TRIM_RE'', ''COLOR_PARTS'',
     ''rgb_to_hsl'', ''hsl_to_rgb'', ''hwb_to_rgb'', ''rgb_to_hwb'', ''hsl_to_hwb'',
     ''hwb_to_hsl'', ''rgb_blend_channel'', ''percent_blend_channel'', ''hue_blend_channel'',
     ''mix_channel'', ''clamp'', ''round_int'', ''fmt_float'', ''norm_perc_channel'',
     ''norm_rgb_channel'', ''norm_alpha_channel'', ''norm_hex_channel'', ''norm_angle'',
     ''norm_hue_channel'']"

definition base_globals :: "string list" where
  "base_globals = [''util'', ''_ColorBase'']"

definition init_globals :: "string list" where
  "init_globals =
    [''_RGB'', ''_HSL'', ''_HWB'', ''util'', ''__all__'', ''CS_RGB'', ''CS_HSL'', ''CS_HWB'',
     ''OP_NULL'', ''OP_SCALE'', ''OP_ADD'', ''OP_SUB'', ''_ColorUtil'', ''RGB'', ''HSL'', ''HWB'',
     ''css_color'']"

definition load_global :: "string list \<Rightarrow> string \<Rightarrow> error + unit" where
  "load_global names n = (if n \<in> set names then Inr () else Inl (NameError n))"

subsection \<open>\<^verbatim>\<open>util.py\<close>: constants and clamp\<close>

definition RGB_CHANNEL_SCALE :: real where "RGB_CHANNEL_SCALE = 1 / 255"
definition HUE_SCALE :: real where "HUE_SCALE = 1 / 360"
definition SCALE_PERCENT :: real where "SCALE_PERCENT = 1 / 100"
definition CONVERT_TURN :: real where "CONVERT_TURN = 360"
definition CONVERT_GRAD :: real where "CONVERT_GRAD = 90 / 100"

datatype cspace = CS_RGB | CS_HSL | CS_HWB

datatype opmode = OP_NULL | OP_SCALE | OP_ADD | OP_SUB

definition clamp :: "real \<Rightarrow> real \<Rightarrow> real \<Rightarrow> real" where
  "clamp v mn mx = max (min v mx) mn"

subsection \<open>Color objects\<close>

text \<open>
  An instance of one of the public classes \<^verbatim>\<open>RGB\<close>, \<^verbatim>\<open>HSL\<close>, \<^verbatim>\<open>HWB\<close>: its class and
  the attributes \<^verbatim>\<open>_c1\<close>, \<^verbatim>\<open>_c2\<close>, \<^verbatim>\<open>_c3\<close> (the primary channels) and \<^verbatim>\<open>_c0\<close> (alpha).
\<close>

record color =
  cls :: cspace
  c1 :: real
  c2 :: real
  c3 :: real
  c0 :: real

text \<open>The property setters: \<^verbatim>\<open>a\<close> of \<^verbatim>\<open>_ColorBase\<close>, \<^verbatim>\<open>r g b\<close> of \<^verbatim>\<open>_RGB\<close>,
  \<^verbatim>\<open>h s l\<close> of \<^verbatim>\<open>_HSL\<close>, \<^verbatim>\<open>h w b\<close> of \<^verbatim>\<open>_HWB\<close>.\<close>

definition set_a :: "real \<Rightarrow> color \<Rightarrow> color" where
  "set_a v c = c\<lparr>c0 := clamp v 0 1\<rparr>"

definition rgb_set_r :: "real \<Rightarrow> color \<Rightarrow> color" where
  "rgb_set_r v c = c\<lparr>c1 := clamp v 0 1\<rparr>"
definition rgb_set_g :: "real \<Rightarrow> color \<Rightarrow> color" where
  "rgb_set_g v c = c\<lparr>c2 := clamp v 0 1\<rparr>"
definition rgb_set_b :: "real \<Rightarrow> color \<Rightarrow> color" where
  "rgb_set_b v c = c\<lparr>c3 := clamp v 0 1\<rparr>"

definition hsl_set_h :: "real \<Rightarrow> color \<Rightarrow> color" where
  "hsl_set_h v c = c\<lparr>c1 := clamp v 0 1\<rparr>"
definition hsl_set_s :: "real \<Rightarrow> color \<Rightarrow> color" where
  "hsl_set_s v c = c\<lparr>c2 := clamp v 0 1\<rparr>"
definition hsl_set_l :: "real \<Rightarrow> color \<Rightarrow> color" where
  "hsl_set_l v c = c\<lparr>c3 := clamp v 0 1\<rparr>"

definition hwb_set_h :: "real \<Rightarrow> color \<Rightarrow> color" where
  "hwb_set_h v c = c\<lparr>c1 := clamp v 0 1\<rparr>"
definition hwb_set_w :: "real \<Rightarrow> color \<Rightarrow> color" where
  "hwb_set_w v c = c\<lparr>c2 := clamp v 0 1\<rparr>"
definition hwb_set_b :: "real \<Rightarrow> color \<Rightarrow> color" where
  "hwb_set_b v c = c\<lparr>c3 := clamp v 0 1\<rparr>"

subsection \<open>Float division\<close>

text \<open>Python's \<^verbatim>\<open>/\<close> on floats raises \<^verbatim>\<open>ZeroDivisionError\<close> when the divisor is zero.\<close>

definition fdiv :: "real \<Rightarrow> real \<Rightarrow> error + real" where
  "fdiv a b = (if b = 0 then Inl ZeroDivisionError else Inr (a / b))"

subsection \<open>The standard library's \<^verbatim>\<open>colorsys\<close>\<close>

text \<open>
  \<^verbatim>\<open>util.py\<close> imports \<^verbatim>\<open>rgb_to_hls\<close>, \<^verbatim>\<open>hls_to_rgb\<close>, \<^verbatim>\<open>rgb_to_hsv\<close> and \<^verbatim>\<open>hsv_to_rgb\<close>
  from CPython's \<^verbatim>\<open>colorsys\<close> module; they are transcribed from that module.
  \<^verbatim>\<open>x % 1.0\<close> is \<^term>\<open>frac x\<close>, and \<^verbatim>\<open>int(x)\<close> truncates toward zero.
\<close>

definition py_int_of_float :: "real \<Rightarrow> int" where
  "py_int_of_float x = (if 0 \<le> x then \<lfloor>x\<rfloor> else \<lceil>x\<rceil>)"

definition rgb_to_hls :: "real \<Rightarrow> real \<Rightarrow> real \<Rightarrow> error + real \<times> real \<times> real" where
  "rgb_to_hls r g b =
    (let maxc = max (max r g) b;
         minc = min (min r g) b;
         sumc = maxc + minc;
         rangec = maxc - minc;
         l = sumc / 2
     in if minc = maxc then Inr (0, l, 0)
        else
          bindE (if l \<le> 1 / 2 then fdiv rangec sumc else fdiv rangec (2 - maxc - minc)) (\<lambda>s.
          bindE (fdiv (maxc - r) rangec) (\<lambda>rc.
          bindE (fdiv (maxc - g) rangec) (\<lambda>gc.
          bindE (fdiv (maxc - b) rangec) (\<lambda>bc.
            let h = (if r = maxc then bc - gc
                     else if g = maxc then 2 + rc - bc
                     else 4 + gc - rc);
                h = frac (h / 6)
            in Inr (h, l, s))))))"

definition colorsys_v :: "real \<Rightarrow> real \<Rightarrow> real \<Rightarrow> real" where
  "colorsys_v m1 m2 hue0 =
    (let hue1 = frac hue0
     in if hue1 < 1 / 6 then m1 + (m2 - m1) * hue1 * 6
        else if hue1 < 1 / 2 then m2
        else if hue1 < 2 / 3 then m1 + (m2 - m1) * (2 / 3 - hue1) * 6
        else m1)"

definition hls_to_rgb :: "real \<Rightarrow> real \<Rightarrow> real \<Rightarrow> real \<times> real \<times> real" where
  "hls_to_rgb h l s =
    (if s = 0 then (l, l, l)
     else
       let m2 = (if l \<le> 1 / 2 then l * (1 + s) else l + s - (l * s));
           m1 = 2 * l - m2
       in (colorsys_v m1 m2 (h + 1 / 3), colorsys_v m1 m2 h, colorsys_v m1 m2 (h - 1 / 3)))"

definition rgb_to_hsv :: "real \<Rightarrow> real \<Rightarrow> real \<Rightarrow> error + real \<times> real \<times> real" where
  "rgb_to_hsv r g b =
    (let maxc = max (max r g) b;
         minc = min (min r g) b;
         rangec = maxc - minc;
         v = maxc
     in if minc = maxc then Inr (0, 0, v)
        else
          bindE (fdiv rangec maxc) (\<lambda>s.
          bindE (fdiv (maxc - r) rangec) (\<lambda>rc.
          bindE (fdiv (maxc - g) rangec) (\<lambda>gc.
          bindE (fdiv (maxc - b) rangec) (\<lambda>bc.
            let h = (if r = maxc then bc - gc
                     else if g = maxc then 2 + rc - bc
                     else 4 + gc - rc);
                h = frac (h / 6)
            in Inr (h, s, v))))))"

definition hsv_to_rgb :: "real \<Rightarrow> real \<Rightarrow> real \<Rightarrow> real \<times> real \<times> real" where
  "hsv_to_rgb h s v =
    (if s = 0 then (v, v, v)
     else
       let i = py_int_of_float (h * 6);
           f = (h * 6) - of_int i;
           p = v * (1 - s);
           q = v * (1 - s * f);
           t = v * (1 - s * (1 - f));
           i = i mod 6
       in if i = 0 then (v, t, p)
          else if i = 1 then (q, v, p)
          else if i = 2 then (p, v, t)
          else if i = 3 then (p, q, v)
          else if i = 4 then (t, p, v)
          else (v, p, q))"

subsection \<open>\<^verbatim>\<open>util.py\<close>: conversions between the color spaces\<close>

definition rgb_to_hsl :: "real \<Rightarrow> real \<Rightarrow> real \<Rightarrow> error + real \<times> real \<times> real" where
  "rgb_to_hsl r g b = bindE (rgb_to_hls r g b) (\<lambda>(h, l, s). Inr (h, s, l))"

definition hsl_to_rgb :: "real \<Rightarrow> real \<Rightarrow> real \<Rightarrow> real \<times> real \<times> real" where
  "hsl_to_rgb h s l = hls_to_rgb h l s"

definition hwb_to_rgb :: "real \<Rightarrow> real \<Rightarrow> real \<Rightarrow> error + real \<times> real \<times> real" where
  "hwb_to_rgb h w b =
    bindE (if w + b > 1
           then bindE (fdiv 1 (w + b)) (\<lambda>norm_factor. Inr (w * norm_factor, b * norm_factor))
           else Inr (w, b)) (\<lambda>(w, b).
    bindE (fdiv w (1 - b)) (\<lambda>q.
      let s = 1 - q;
          v = 1 - b
      in case hsv_to_rgb h s v of (r, g, b) \<Rightarrow>
           Inr (clamp r 0 1, clamp g 0 1, clamp b 0 1)))"

definition rgb_to_hwb :: "real \<Rightarrow> real \<Rightarrow> real \<Rightarrow> error + real \<times> real \<times> real" where
  "rgb_to_hwb r g b =
    bindE (rgb_to_hsv r g b) (\<lambda>(h, s, v).
      let w = (1 - s) * v;
          b = 1 - v
      in Inr (h, w, b))"

definition hsl_to_hwb :: "real \<Rightarrow> real \<Rightarrow> real \<Rightarrow> error + real \<times> real \<times> real" where
  "hsl_to_hwb h s l = (case hsl_to_rgb h s l of (r, g, b) \<Rightarrow> rgb_to_hwb r g b)"

definition hwb_to_hsl :: "real \<Rightarrow> real \<Rightarrow> real \<Rightarrow> error + real \<times> real \<times> real" where
  "hwb_to_hsl h w b = bindE (hwb_to_rgb h w b) (\<lambda>(r, g, b). rgb_to_hwb r g b)"

subsection \<open>\<^verbatim>\<open>util.py\<close>: blending, mixing, rounding\<close>

definition rgb_blend_channel :: "real \<Rightarrow> real \<Rightarrow> real \<Rightarrow> real" where
  "rgb_blend_channel x1 x2 f = clamp \<bar>x1 * f + x2 * (1 - f)\<bar> 0 1"

definition percent_blend_channel :: "real \<Rightarrow> real \<Rightarrow> real \<Rightarrow> real" where
  "percent_blend_channel x1 x2 f = clamp \<bar>x1 * f + x2 * (1 - f)\<bar> 0 1"

text \<open>The loop \<^verbatim>\<open>while value > 360.0: value -= 360.0\<close>.\<close>

function hue_blend_loop :: "real \<Rightarrow> real" where
  "hue_blend_loop v = (if v > 360 then hue_blend_loop (v - 360) else v)"
  by pat_completeness auto
termination
proof (relation "measure (\<lambda>v. nat \<lceil>v\<rceil>)")
  fix v :: real assume "360 < v"
  then have "\<lceil>v - 360\<rceil> = \<lceil>v\<rceil> - 360" "\<lceil>v\<rceil> > 360" by linarith+
  then show "(v - 360, v) \<in> measure (\<lambda>v. nat \<lceil>v\<rceil>)" by simp
qed simp
declare hue_blend_loop.simps [simp del]

text \<open>\<^verbatim>\<open>HSL_WORKAROUND\<close> is \<^verbatim>\<open>int(sublime.version()) < 4069\<close>, a fact of the host: it is
  the first argument.\<close>

definition hue_blend_channel :: "bool \<Rightarrow> real \<Rightarrow> real \<Rightarrow> real \<Rightarrow> real" where
  "hue_blend_channel HSL_WORKAROUND x1 x2 f =
    (let x1 = x1 * 360;
         x2 = x2 * 360;
         (x1, x2) = (if \<bar>x1 - x2\<bar> > 180
                     then (if x1 < x2 then (x1 + 360, x2) else (x1, x2 + 360))
                     else (x1, x2));
         f = (if HSL_WORKAROUND then 1 - f else f);
         v = \<bar>x1 * f + x2 * (1 - f)\<bar>;
         v = hue_blend_loop v
     in v * HUE_SCALE)"

definition mix_channel :: "real \<Rightarrow> real \<Rightarrow> real \<Rightarrow> real \<Rightarrow> real" where
  "mix_channel cf af cb ab = clamp \<bar>cf * (af * 1) + cb * (ab * 1) * (1 - (af * 1))\<bar> 0 1"

text \<open>\<^verbatim>\<open>round_int\<close>: \<^verbatim>\<open>Decimal(dec).quantize(Decimal('0'), ROUND_HALF_DOWN)\<close> rounds to the
  nearest integer, a tie going toward zero.\<close>

definition round_int :: "real \<Rightarrow> int" where
  "round_int dec =
    (let m = \<bar>dec\<bar>;
         n = (if m - of_int \<lfloor>m\<rfloor> > 1 / 2 then \<lfloor>m\<rfloor> + 1 else \<lfloor>m\<rfloor>)
     in if dec < 0 then - n else n)"

subsection \<open>Strings\<close>

text \<open>The characters Python counts as whitespace (\<^verbatim>\<open>str.isspace\<close>, and \<^verbatim>\<open>\s\<close> in a
  \<^verbatim>\<open>str\<close> pattern) among the code points below 256.\<close>

definition whitespace :: "char list" where
  "whitespace =
    [CHR 0x09, CHR 0x0A, CHR 0x0B, CHR 0x0C, CHR 0x0D, CHR 0x1C, CHR 0x1D, CHR 0x1E,
     CHR 0x1F, CHR 0x20, CHR 0x85, CHR 0xA0]"

definition is_space :: "char \<Rightarrow> bool" where
  "is_space c = (c \<in> set whitespace)"

definition is_digit :: "char \<Rightarrow> bool" where
  "is_digit c = (c \<in> set ''0123456789'')"

definition startswith :: "string \<Rightarrow> string \<Rightarrow> bool" where
  "startswith s p = (take (length p) s = p)"

definition endswith :: "string \<Rightarrow> string \<Rightarrow> bool" where
  "endswith s p = (length p \<le> length s \<and> drop (length s - length p) s = p)"

text \<open>\<^verbatim>\<open>s.strip()\<close> and \<^verbatim>\<open>s.strip(chars)\<close>.\<close>

definition strip :: "string \<Rightarrow> string" where
  "strip s = rev (dropWhile is_space (rev (dropWhile is_space s)))"

definition strip_chars :: "string \<Rightarrow> string \<Rightarrow> string" where
  "strip_chars s cs =
     rev (dropWhile (\<lambda>c. c \<in> set cs) (rev (dropWhile (\<lambda>c. c \<in> set cs) s)))"

text \<open>\<^verbatim>\<open>s[start:-1]\<close> and \<^verbatim>\<open>s[:-n]\<close>.\<close>

definition slice_to_last :: "nat \<Rightarrow> string \<Rightarrow> string" where
  "slice_to_last start s = butlast (drop start s)"

definition drop_last :: "nat \<Rightarrow> string \<Rightarrow> string" where
  "drop_last n s = take (length s - n) s"

subsection \<open>Converting text to numbers\<close>

definition digit_val :: "char \<Rightarrow> nat" where
  "digit_val c =
    (case map_of (zip ''0123456789'' [0, 1, 2, 3, 4, 5, 6, 7, 8, 9]) c of
       Some d \<Rightarrow> d
     | None \<Rightarrow> 0)"

definition nat_of_digits :: "string \<Rightarrow> nat" where
  "nat_of_digits s = foldl (\<lambda>n c. 10 * n + digit_val c) 0 s"

text \<open>
  \<^verbatim>\<open>float(s)\<close> on the texts the library passes to it: an optional sign, digits, and an
  optional point followed by digits, with a digit somewhere. The texts reach \<^verbatim>\<open>float\<close>
  from a string that has matched one of the \<^verbatim>\<open>CSS_MATCH\<close> patterns, so they hold no
  exponent, underscore, blank, \<^verbatim>\<open>inf\<close> or \<^verbatim>\<open>nan\<close>; any other text is a
  \<^verbatim>\<open>ValueError\<close> here.
\<close>

definition py_float :: "string \<Rightarrow> error + real" where
  "py_float s =
    (let (sgn, body) =
           (case s of
              [] \<Rightarrow> (1, [])
            | c # cs \<Rightarrow> if c = CHR ''-'' then (- 1, cs)
                        else if c = CHR ''+'' then (1, cs)
                        else (1, s));
         ip = takeWhile is_digit body;
         rest = dropWhile is_digit body
     in case rest of
          [] \<Rightarrow> if ip = [] then Inl ValueError else Inr (sgn * real (nat_of_digits ip))
        | d # fp \<Rightarrow>
            if d = CHR ''.'' \<and> list_all is_digit fp \<and> \<not> (ip = [] \<and> fp = [])
            then Inr (sgn * (real (nat_of_digits ip) + real (nat_of_digits fp) / 10 ^ length fp))
            else Inl ValueError)"

subsection \<open>Regular expressions\<close>

text \<open>
  The patterns of the library use character classes, concatenation, alternation,
  \<^verbatim>\<open>?\<close>, \<^verbatim>\<open>*\<close>, \<^verbatim>\<open>+\<close> and counted repetition, the anchors \<^verbatim>\<open>^\<close> and \<^verbatim>\<open>$\<close>, and the
  flag \<^verbatim>\<open>(?i)\<close>. A pattern of this kind matches a text exactly when the text is in its
  language, which is decided by derivatives.
\<close>

datatype rexp =
    RNone
  | REps
  | RCls "char list"
  | RAlt rexp rexp
  | RSeq rexp rexp
  | RStar rexp

fun nullable :: "rexp \<Rightarrow> bool" where
  "nullable RNone = False"
| "nullable REps = True"
| "nullable (RCls cs) = False"
| "nullable (RAlt r s) = (nullable r \<or> nullable s)"
| "nullable (RSeq r s) = (nullable r \<and> nullable s)"
| "nullable (RStar r) = True"

fun alt :: "rexp \<Rightarrow> rexp \<Rightarrow> rexp" where
  "alt RNone s = s"
| "alt r RNone = r"
| "alt r s = RAlt r s"

fun seq :: "rexp \<Rightarrow> rexp \<Rightarrow> rexp" where
  "seq RNone s = RNone"
| "seq r RNone = RNone"
| "seq REps s = s"
| "seq r s = RSeq r s"

fun deriv :: "char \<Rightarrow> rexp \<Rightarrow> rexp" where
  "deriv c RNone = RNone"
| "deriv c REps = RNone"
| "deriv c (RCls cs) = (if c \<in> set cs then REps else RNone)"
| "deriv c (RAlt r s) = alt (deriv c r) (deriv c s)"
| "deriv c (RSeq r s) =
     (if nullable r then alt (seq (deriv c r) s) (deriv c s) else seq (deriv c r) s)"
| "deriv c (RStar r) = seq (deriv c r) (RStar r)"

fun derivs :: "rexp \<Rightarrow> string \<Rightarrow> rexp" where
  "derivs r [] = r"
| "derivs r (c # cs) = derivs (deriv c r) cs"

text \<open>The whole text is in the language of the pattern.\<close>

definition re_accepts :: "rexp \<Rightarrow> string \<Rightarrow> bool" where
  "re_accepts r s = nullable (derivs r s)"

text \<open>Some prefix of the text is in the language of the pattern (\<^verbatim>\<open>pattern.match\<close> of a
  pattern with no \<^verbatim>\<open>$\<close>).\<close>

fun re_accepts_prefix :: "rexp \<Rightarrow> string \<Rightarrow> bool" where
  "re_accepts_prefix r [] = nullable r"
| "re_accepts_prefix r (c # cs) = (nullable r \<or> re_accepts_prefix (deriv c r) cs)"

definition re_opt :: "rexp \<Rightarrow> rexp" where
  "re_opt r = RAlt r REps"

definition re_plus :: "rexp \<Rightarrow> rexp" where
  "re_plus r = RSeq r (RStar r)"

fun re_rep :: "nat \<Rightarrow> rexp \<Rightarrow> rexp" where
  "re_rep 0 r = REps"
| "re_rep (Suc n) r = RSeq r (re_rep n r)"

fun re_lit :: "string \<Rightarrow> rexp" where
  "re_lit [] = REps"
| "re_lit (c # cs) = RSeq (RCls [c]) (re_lit cs)"

fun re_cat :: "rexp list \<Rightarrow> rexp" where
  "re_cat [] = REps"
| "re_cat (r # rs) = RSeq r (re_cat rs)"

text \<open>\<^verbatim>\<open>$\<close> without \<^verbatim>\<open>re.MULTILINE\<close>: the end of the text, or just before a newline that
  ends the text.\<close>

definition re_dollar :: rexp where
  "re_dollar = re_opt (RCls [CHR 0x0A])"

text \<open>
  \<^verbatim>\<open>(?i)\<close>: letters match without regard to case. Every letter of the library's
  patterns is written in lower case, and among the code points below 256 only the ASCII
  capitals fold to such a letter; so a text matches under \<^verbatim>\<open>(?i)\<close> exactly when, with
  its ASCII capitals put in lower case, it matches the pattern as written.
\<close>

definition lower_ascii :: "char \<Rightarrow> char" where
  "lower_ascii c =
    (case map_of (zip ''ABCDEFGHIJKLMNOPQRSTUVWXYZ'' ''abcdefghijklmnopqrstuvwxyz'') c of
       Some l \<Rightarrow> l
     | None \<Rightarrow> c)"

definition re_accepts_i :: "rexp \<Rightarrow> string \<Rightarrow> bool" where
  "re_accepts_i r s = re_accepts r (map lower_ascii s)"

definition re_accepts_prefix_i :: "rexp \<Rightarrow> string \<Rightarrow> bool" where
  "re_accepts_prefix_i r s = re_accepts_prefix r (map lower_ascii s)"

subsection \<open>\<^verbatim>\<open>util.py\<close>: \<^verbatim>\<open>COLOR_PARTS\<close> and \<^verbatim>\<open>RE_CHAN_SPLIT\<close>\<close>

definition re_digit :: rexp where
  "re_digit = RCls ''0123456789''"

definition re_ws :: rexp where
  "re_ws = RCls whitespace"

definition part_float :: rexp where
  "part_float =
     RSeq (re_opt (RCls ''+-''))
          (RAlt (RSeq (RStar re_digit) (RSeq (RCls ''.'') (re_plus re_digit)))
                (re_plus re_digit))"

definition part_percent :: rexp where
  "part_percent = RSeq part_float (RCls ''%'')"

definition part_angle :: rexp where
  "part_angle =
     RSeq part_float
          (re_opt (RAlt (re_lit ''deg'') (RAlt (re_lit ''rad'')
                   (RAlt (re_lit ''turn'') (re_lit ''grad'')))))"

definition part_space :: rexp where
  "part_space = re_plus re_ws"

definition part_comma :: rexp where
  "part_comma = re_cat [RStar re_ws, RCls '','', RStar re_ws]"

definition part_slash :: rexp where
  "part_slash = re_cat [RStar re_ws, RCls ''/'', RStar re_ws]"

definition part_hex :: rexp where
  "part_hex = RCls ''abcdef0123456789''"

text \<open>
  \<^verbatim>\<open>RE_CHAN_SPLIT.split(s)\<close> with the pattern \<^verbatim>\<open>(?:\s*[,/]\s*|\s+)\<close>. At a position the
  pattern matches when, after the whitespace there, a comma or a slash follows (the match
  then takes the whitespace after it too), or else when the position holds whitespace;
  \<open>chan_sep\<close> gives the text after the match. The pattern never matches the empty text.
\<close>

definition chan_sep :: "string \<Rightarrow> string option" where
  "chan_sep s =
    (let s1 = dropWhile is_space s
     in case s1 of
          [] \<Rightarrow> if s = [] then None else Some []
        | c # cs \<Rightarrow>
            if c = CHR '','' \<or> c = CHR ''/'' then Some (dropWhile is_space cs)
            else if length s1 < length s then Some s1
            else None)"

function chan_split_from :: "string \<Rightarrow> string \<Rightarrow> string list" where
  "chan_split_from tok s =
    (case chan_sep s of
       Some rest \<Rightarrow> tok # chan_split_from [] rest
     | None \<Rightarrow> (case s of
                  [] \<Rightarrow> [tok]
                | c # cs \<Rightarrow> chan_split_from (tok @ [c]) cs))"
  by pat_completeness auto
termination
proof (relation "measure (\<lambda>(tok, s). length s)")
  fix tok s :: string and rest :: string
  assume a: "chan_sep s = Some rest"
  have d: "length (dropWhile is_space t) \<le> length t" for t
    by (rule length_dropWhile_le)
  show "(([], rest), (tok, s)) \<in> measure (\<lambda>(tok, s). length s)"
  proof (cases "dropWhile is_space s")
    case Nil
    with a show ?thesis by (cases s) (simp_all add: chan_sep_def split: if_splits)
  next
    case (Cons c cs)
    have l1: "length (dropWhile is_space cs) \<le> length cs" by (rule d)
    have l2: "Suc (length cs) \<le> length s" using d [of s] Cons by simp
    from a Cons have "rest = dropWhile is_space cs \<or> (rest = c # cs \<and> Suc (length cs) < length s)"
      by (simp add: chan_sep_def Let_def split: if_splits)
    with l1 l2 show ?thesis by auto
  qed
qed auto
declare chan_split_from.simps [simp del]

definition RE_CHAN_SPLIT_split :: "string \<Rightarrow> string list" where
  "RE_CHAN_SPLIT_split s = chan_split_from [] s"

subsection \<open>\<^verbatim>\<open>util.py\<close>: normalising channel texts\<close>

definition norm_perc_channel :: "string \<Rightarrow> error + real" where
  "norm_perc_channel v =
     bindE (py_float (strip_chars v ''%'')) (\<lambda>x. Inr (clamp x 0 100 * SCALE_PERCENT))"

definition norm_rgb_channel :: "string \<Rightarrow> error + real" where
  "norm_rgb_channel v =
    (if endswith v ''%'' then norm_perc_channel v
     else bindE (py_float v) (\<lambda>x. Inr (clamp x 0 255 * RGB_CHANNEL_SCALE)))"

definition norm_alpha_channel :: "string \<Rightarrow> error + real" where
  "norm_alpha_channel v =
    (if endswith v ''%'' then norm_perc_channel v
     else bindE (py_float v) (\<lambda>x. Inr (clamp x 0 1)))"

text \<open>\<^verbatim>\<open>norm_angle\<close>. The module never imports \<^verbatim>\<open>math\<close>, so the \<^verbatim>\<open>rad\<close> branch raises
  \<^verbatim>\<open>NameError\<close> when it loads the name, before it converts the number.\<close>

definition math_degrees :: "real \<Rightarrow> real" where [code del]:
  "math_degrees x = x * 180 / pi"

definition norm_angle :: "string \<Rightarrow> error + real" where
  "norm_angle angle =
    (if endswith angle ''turn''
       then bindE (py_float (drop_last 4 angle)) (\<lambda>x. Inr (x * CONVERT_TURN))
     else if endswith angle ''grad''
       then bindE (py_float (drop_last 4 angle)) (\<lambda>x. Inr (x * CONVERT_GRAD))
     else if endswith angle ''rad''
       then bindE (load_global util_globals ''math'') (\<lambda>_.
            bindE (py_float (drop_last 3 angle)) (\<lambda>x. Inr (math_degrees x)))
     else if endswith angle ''grad''
       then bindE (py_float (drop_last 3 angle)) (\<lambda>x. Inr (x * CONVERT_GRAD))
     else if endswith angle ''deg''
       then py_float (drop_last 3 angle)
     else py_float angle)"

definition norm_hue_channel :: "string \<Rightarrow> error + real" where
  "norm_hue_channel v = bindE (norm_angle v) (\<lambda>x. Inr (clamp x 0 360 * HUE_SCALE))"

text \<open>The loop \<^verbatim>\<open>for i, c in enumerate(tokens, 0): channels.append(norm(i, c))\<close>: the first
  token that fails ends it.\<close>

fun norm_channels :: "(nat \<Rightarrow> string \<Rightarrow> error + real) \<Rightarrow> nat \<Rightarrow> string list \<Rightarrow> error + real list" where
  "norm_channels nrm i [] = Inr []"
| "norm_channels nrm i (t # ts) =
     bindE (nrm i t) (\<lambda>x. bindE (norm_channels nrm (Suc i) ts) (\<lambda>xs. Inr (x # xs)))"

definition default_alpha :: "real list \<Rightarrow> real list" where
  "default_alpha channels = (if length channels = 3 then channels @ [1] else channels)"

subsection \<open>\<^verbatim>\<open>util.py\<close>: formatting numbers\<close>

function str_of_nat :: "nat \<Rightarrow> string" where
  "str_of_nat n =
    (if n < 10 then [''0123456789'' ! n]
     else str_of_nat (n div 10) @ [''0123456789'' ! (n mod 10)])"
  by pat_completeness auto
termination
  by (relation "measure id") auto
declare str_of_nat.simps [simp del]

function hex_of_nat :: "nat \<Rightarrow> string" where
  "hex_of_nat n =
    (if n < 16 then [''0123456789ABCDEF'' ! n]
     else hex_of_nat (n div 16) @ [''0123456789ABCDEF'' ! (n mod 16)])"
  by pat_completeness auto
termination
  by (relation "measure id") auto
declare hex_of_nat.simps [simp del]

text \<open>\<^verbatim>\<open>"{:d}".format(n)\<close> and \<^verbatim>\<open>"{:02X}".format(n)\<close>.\<close>

definition fmt_d :: "int \<Rightarrow> string" where
  "fmt_d n = (if n < 0 then CHR ''-'' # str_of_nat (nat (- n)) else str_of_nat (nat n))"

definition fmt_02X :: "int \<Rightarrow> string" where
  "fmt_02X n =
    (if n < 0 then CHR ''-'' # hex_of_nat (nat (- n))
     else let s = hex_of_nat (nat n) in if length s < 2 then CHR ''0'' # s else s)"

text \<open>
  \<^verbatim>\<open>str(Decimal(f).quantize(Decimal('0.' + '0' * p if p > 0 else '0'), ROUND_HALF_UP))\<close>:
  \<open>f\<close> rounded to \<open>p\<close> decimals, a tie going away from zero, written with exactly \<open>p\<close>
  decimals.
\<close>

definition quantize_half_up_str :: "real \<Rightarrow> nat \<Rightarrow> string" where
  "quantize_half_up_str f p =
    (let n = nat \<lfloor>\<bar>f\<bar> * 10 ^ p + 1 / 2\<rfloor>;
         ds = str_of_nat n;
         ds = replicate (Suc p - length ds) CHR ''0'' @ ds;
         ip = take (length ds - p) ds;
         fp = drop (length ds - p) ds
     in (if f < 0 then ''-'' else '''') @ ip @ (if p > 0 then ''.'' @ fp else ''''))"

text \<open>
  The pattern \<^verbatim>\<open>^(?P<keep>\d+)(?P<trash>\.0+|(?P<keep2>\.\d*[1-9])0+)$\<close> applied to such a
  text: when it matches, the result is \<^verbatim>\<open>keep\<close> followed by \<^verbatim>\<open>keep2\<close> if that group took
  part. It matches a text of digits, a point and digits that ends in \<^verbatim>\<open>0\<close>.
\<close>

definition float_trim :: "string \<Rightarrow> string" where
  "float_trim s =
    (let ip = takeWhile is_digit s;
         rest = dropWhile is_digit s
     in case rest of
          [] \<Rightarrow> s
        | d # fp \<Rightarrow>
            if d = CHR ''.'' \<and> ip \<noteq> [] \<and> fp \<noteq> [] \<and> list_all is_digit fp \<and> last fp = CHR ''0''
            then (let keep2 = rev (dropWhile (\<lambda>c. c = CHR ''0'') (rev fp))
                  in if keep2 = [] then ip else ip @ ''.'' @ keep2)
            else s)"

text \<open>\<^verbatim>\<open>fmt_float\<close>. The module binds \<^verbatim>\<open>RE_FLOAT_TRIM_RE\<close>; the function loads
  \<^verbatim>\<open>RE_FLOAT_TRIM\<close>.\<close>

definition fmt_float :: "real \<Rightarrow> nat \<Rightarrow> error + string" where
  "fmt_float f p =
    (let string = quantize_half_up_str f p
     in bindE (load_global util_globals ''RE_FLOAT_TRIM'') (\<lambda>_. Inr (float_trim string)))"

subsection \<open>\<^verbatim>\<open>rgb.py\<close>, \<^verbatim>\<open>hsl.py\<close>, \<^verbatim>\<open>hwb.py\<close>: patterns and channel splitting\<close>

definition RGB_DEF_BG :: string where "RGB_DEF_BG = ''rgb(0 0 0 / 1)''"
definition HSL_DEF_BG :: string where "HSL_DEF_BG = ''hsl(0 0% 0% / 1.0)''"
definition HWB_DEF_BG :: string where "HWB_DEF_BG = ''hwb(0 0% 0% / 1.0)''"

definition RGB_CSS_MATCH :: rexp where
  "RGB_CSS_MATCH =
     RSeq
         (RAlt
           (re_cat
             [re_lit ''rgb'', re_opt (re_lit ''a''), re_lit ''('', RStar re_ws,
              RAlt
                (RSeq
                  (RAlt (RSeq (re_rep 2 (RSeq part_float part_space)) part_float)
                        (RSeq (re_rep 2 (RSeq part_percent part_space)) part_percent))
                  (re_opt (RSeq part_slash (RAlt part_percent part_float))))
                (RSeq
                  (RAlt (RSeq (re_rep 2 (RSeq part_float part_comma)) part_float)
                        (RSeq (re_rep 2 (RSeq part_percent part_comma)) part_percent))
                  (re_opt (RSeq part_comma (RAlt part_percent part_float)))),
              RStar re_ws, re_lit '')''])
           (RSeq (re_lit ''#'')
                 (RAlt (RSeq (re_rep 6 part_hex) (re_opt (re_rep 2 part_hex)))
                       (RSeq (re_rep 3 part_hex) (re_opt part_hex)))))
         re_dollar"

text \<open>\<^verbatim>\<open>HEX_MATCH\<close>: no anchor at the end, and every group of it is \<^verbatim>\<open>(?:...)\<close>, so the
  pattern has no capturing group.\<close>

definition HEX_MATCH :: rexp where
  "HEX_MATCH =
     RSeq (re_lit ''#'')
             (RAlt (RSeq (re_rep 6 part_hex) (re_opt (re_rep 2 part_hex)))
                   (RSeq (re_rep 3 part_hex) (re_opt part_hex)))"

definition HEX_MATCH_groups :: nat where
  "HEX_MATCH_groups = 0"

text \<open>\<^verbatim>\<open>m.group(k)\<close> for \<open>k \<ge> 1\<close> on a match \<^verbatim>\<open>m\<close> of \<^verbatim>\<open>HEX_MATCH\<close>: a group the pattern
  does not have raises \<^verbatim>\<open>IndexError\<close>.\<close>

definition HEX_MATCH_group :: "nat \<Rightarrow> error + string option" where
  "HEX_MATCH_group k = (if k \<le> HEX_MATCH_groups then Inr None else Inl IndexError)"

definition hsl_hwb_body :: rexp where
  "hsl_hwb_body =
     RAlt
       (re_cat [part_angle, part_space, part_percent, part_space, part_percent,
                re_opt (RSeq part_slash (RAlt part_percent part_float))])
       (re_cat [part_angle, part_comma, part_percent, part_comma, part_percent,
                re_opt (RSeq part_comma (RAlt part_percent part_float))])"

definition HSL_CSS_MATCH :: rexp where
  "HSL_CSS_MATCH =
     re_cat [re_lit ''hsl'', re_opt (re_lit ''a''), re_lit ''('', RStar re_ws,
                hsl_hwb_body, RStar re_ws, re_lit '')'', re_dollar]"

definition HWB_CSS_MATCH :: rexp where
  "HWB_CSS_MATCH =
     re_cat [re_lit ''hw'', re_opt (re_lit ''b''), re_lit ''('', RStar re_ws,
                hsl_hwb_body, RStar re_ws, re_lit '')'', re_dollar]"

text \<open>\<^verbatim>\<open>int(s, 16)\<close> on a text of hexadecimal digits.\<close>

definition hex_val :: "char \<Rightarrow> nat option" where
  "hex_val c =
     map_of (zip ''0123456789abcdefABCDEF''
                 [0, 1, 2, 3, 4, 5, 6, 7, 8, 9, 10, 11, 12, 13, 14, 15, 10, 11, 12, 13, 14, 15]) c"

fun int16_from :: "nat \<Rightarrow> string \<Rightarrow> error + nat" where
  "int16_from n [] = Inr n"
| "int16_from n (c # cs) =
     (case hex_val c of None \<Rightarrow> Inl ValueError | Some d \<Rightarrow> int16_from (16 * n + d) cs)"

definition int16 :: "string \<Rightarrow> error + real" where
  "int16 s = (if s = [] then Inl ValueError else bindE (int16_from 0 s) (\<lambda>n. Inr (real n)))"

text \<open>\<^verbatim>\<open>s[i:j]\<close> and \<^verbatim>\<open>s[i]\<close> for indices from the left.\<close>

definition slice :: "nat \<Rightarrow> nat \<Rightarrow> string \<Rightarrow> string" where
  "slice i j s = take (j - i) (drop i s)"

definition char_at :: "nat \<Rightarrow> string \<Rightarrow> error + string" where
  "char_at i s = (if i < length s then Inr [s ! i] else Inl IndexError)"

text \<open>\<^verbatim>\<open>_RGB._split_channels\<close>. In the hexadecimal branch the first statement after the
  assertion is \<^verbatim>\<open>if m.group(1):\<close>; the second tuple ends with \<^verbatim>\<open>m.group(r)\<close>, and
  \<^verbatim>\<open>r\<close> is no name of the function or of the module, so nothing is known of what
  would follow that load.\<close>

definition rgb_globals :: "string list" where
  "rgb_globals = [''_ColorBase'', ''util'', ''css_names'', ''re'', ''__all__'', ''RE_COMPRESS'', ''_RGB'']"

definition hex_channel :: "string \<Rightarrow> error + real" where
  "hex_channel s = bindE (int16 s) (\<lambda>n. Inr (n * RGB_CHANNEL_SCALE))"

definition truthy :: "string option \<Rightarrow> bool" where
  "truthy g = (case g of None \<Rightarrow> False | Some t \<Rightarrow> t \<noteq> [])"

definition RGB_split_channels :: "string \<Rightarrow> error + real list" where
  "RGB_split_channels color =
    (if startswith color ''rgb'' then
       let start = (if startswith color ''rgba'' then 5 else 4)
       in bindE (norm_channels (\<lambda>i c. if i = 3 then norm_alpha_channel c else norm_rgb_channel c) 0
                  (RE_CHAN_SPLIT_split (strip (slice_to_last start color))))
            (\<lambda>channels. Inr (default_alpha channels))
     else
       if \<not> re_accepts_prefix_i HEX_MATCH color then Inl AssertionError
       else
         bindE (HEX_MATCH_group 1) (\<lambda>g1.
           if truthy g1 then
             bindE (hex_channel (slice 1 3 color)) (\<lambda>r.
             bindE (hex_channel (slice 3 5 color)) (\<lambda>g.
             bindE (hex_channel (slice 5 7 color)) (\<lambda>b.
             bindE (HEX_MATCH_group 2) (\<lambda>g2.
             bindE (case g2 of
                      None \<Rightarrow> Inr 1
                    | Some t \<Rightarrow> if t = [] then Inr 1 else hex_channel t) (\<lambda>a.
               Inr [r, g, b, a])))))
           else
             bindE (char_at 1 color) (\<lambda>x1. bindE (hex_channel (x1 @ x1)) (\<lambda>r.
             bindE (char_at 2 color) (\<lambda>x2. bindE (hex_channel (x2 @ x2)) (\<lambda>g.
             bindE (char_at 3 color) (\<lambda>x3. bindE (hex_channel (x3 @ x3)) (\<lambda>b.
             bindE (load_global rgb_globals ''r'') (\<lambda>_. Inr [r, g, b, 1])))))))))"

text \<open>\<^verbatim>\<open>css_names.name2hex\<close> is not part of these sources; it is the parameter
  \<open>name2hex\<close>.\<close>

definition RGB_css_match :: "(string \<Rightarrow> string option) \<Rightarrow> string \<Rightarrow> error + real list option" where
  "RGB_css_match name2hex string =
    (if re_accepts_i RGB_CSS_MATCH string
     then bindE (RGB_split_channels string) (\<lambda>v. Inr (Some v))
     else case name2hex string of
            Some hex \<Rightarrow> bindE (RGB_split_channels hex) (\<lambda>v. Inr (Some v))
          | None \<Rightarrow> Inr None)"

definition HSL_split_channels :: "string \<Rightarrow> error + real list" where
  "HSL_split_channels color =
    (let start = (if startswith color ''hsla'' then 5 else 4)
     in bindE (norm_channels (\<lambda>i c. if i = 0 then norm_hue_channel c
                                     else if i = 3 then norm_alpha_channel c
                                     else norm_perc_channel c) 0
                (RE_CHAN_SPLIT_split (strip (slice_to_last start color))))
          (\<lambda>channels. Inr (default_alpha channels)))"

definition HSL_css_match :: "string \<Rightarrow> error + real list option" where
  "HSL_css_match string =
    (if re_accepts_i HSL_CSS_MATCH string
     then bindE (HSL_split_channels string) (\<lambda>v. Inr (Some v))
     else Inr None)"

definition HWB_split_channels :: "string \<Rightarrow> error + real list" where
  "HWB_split_channels color =
    (let start = 4
     in bindE (norm_channels (\<lambda>i c. if i = 0 then norm_hue_channel c
                                     else if i = 3 then norm_alpha_channel c
                                     else norm_perc_channel c) 0
                (RE_CHAN_SPLIT_split (strip (slice_to_last start color))))
          (\<lambda>channels. Inr (default_alpha channels)))"

definition HWB_css_match :: "string \<Rightarrow> error + real list option" where
  "HWB_css_match string =
    (if re_accepts_i HWB_CSS_MATCH string
     then bindE (HWB_split_channels string) (\<lambda>v. Inr (Some v))
     else Inr None)"

subsection \<open>\<^verbatim>\<open>__init__.py\<close>: the constructors\<close>

text \<open>What a caller can pass to a constructor: nothing (\<^verbatim>\<open>None\<close>, the default), a
  color object, a \<^verbatim>\<open>str\<close>, a list or tuple of floats, or an object of another type.\<close>

datatype pyarg =
    PyNone
  | PyColor color
  | PyStr string
  | PySeq "real list"
  | PyOther

definition is_None :: "pyarg \<Rightarrow> bool" where
  "is_None x = (case x of PyNone \<Rightarrow> True | _ \<Rightarrow> False)"

text \<open>An object whose \<^verbatim>\<open>__init__\<close> has not yet assigned its attributes.\<close>

definition blank :: "cspace \<Rightarrow> color" where
  "blank k = \<lparr>cls = k, c1 = 0, c2 = 0, c3 = 0, c0 = 0\<rparr>"

text \<open>\<^verbatim>\<open>a, b, c, d = values\<close> needs exactly four values.\<close>

definition unpack4 :: "real list \<Rightarrow> error + real \<times> real \<times> real \<times> real" where
  "unpack4 values = (case values of [a, b, c, d] \<Rightarrow> Inr (a, b, c, d) | _ \<Rightarrow> Inl ValueError)"

definition RGB_init :: "(string \<Rightarrow> string option) \<Rightarrow> pyarg \<Rightarrow> error + color" where
  "RGB_init name2hex color =
    (case color of
       PyColor x \<Rightarrow>
         (case cls x of
            CS_RGB \<Rightarrow>
              Inr (set_a (c0 x) (rgb_set_b (c3 x) (rgb_set_g (c2 x) (rgb_set_r (c1 x) (blank CS_RGB)))))
          | CS_HSL \<Rightarrow>
              (case hsl_to_rgb (c1 x) (c2 x) (c3 x) of (r, g, b) \<Rightarrow>
                 Inr (set_a (c0 x) (rgb_set_b b (rgb_set_g g (rgb_set_r r (blank CS_RGB))))))
          | CS_HWB \<Rightarrow>
              bindE (hwb_to_rgb (c1 x) (c2 x) (c3 x)) (\<lambda>(r, g, b).
                 Inr (set_a (c0 x) (rgb_set_b b (rgb_set_g g (rgb_set_r r (blank CS_RGB)))))))
     | PyStr s \<Rightarrow>
         (let s = (if is_None color then RGB_DEF_BG else s)
          in bindE (RGB_css_match name2hex s) (\<lambda>values.
               case values of
                 None \<Rightarrow> Inl ValueError
               | Some vs \<Rightarrow>
                   bindE (unpack4 vs) (\<lambda>(r, g, b, a).
                     Inr (set_a a (rgb_set_b b (rgb_set_g g (rgb_set_r r (blank CS_RGB))))))))
     | PySeq xs \<Rightarrow>
         (if \<not> (3 \<le> length xs \<and> length xs \<le> 4) then Inl ValueError
          else Inr (set_a (if length xs = 3 then 1 else clamp (xs ! 3) 0 1)
                     (rgb_set_b (clamp (xs ! 2) 0 1)
                       (rgb_set_g (clamp (xs ! 1) 0 1)
                         (rgb_set_r (clamp (xs ! 0) 0 1) (blank CS_RGB))))))
     | _ \<Rightarrow> Inl TypeError)"

definition HSL_init :: "pyarg \<Rightarrow> error + color" where
  "HSL_init color =
    (case color of
       PyColor x \<Rightarrow>
         (case cls x of
            CS_HSL \<Rightarrow>
              Inr (set_a (c0 x) (hsl_set_l (c3 x) (hsl_set_s (c2 x) (hsl_set_h (c1 x) (blank CS_HSL)))))
          | CS_RGB \<Rightarrow>
              bindE (rgb_to_hsl (c1 x) (c2 x) (c3 x)) (\<lambda>(h, s, l).
                 Inr (set_a (c0 x) (hsl_set_l l (hsl_set_s s (hsl_set_h h (blank CS_HSL))))))
          | CS_HWB \<Rightarrow>
              bindE (hwb_to_hsl (c1 x) (c2 x) (c3 x)) (\<lambda>(h, s, l).
                 Inr (set_a (c0 x) (hsl_set_l l (hsl_set_s s (hsl_set_h h (blank CS_HSL)))))))
     | PyStr s \<Rightarrow>
         (let s = (if is_None color then HSL_DEF_BG else s)
          in bindE (HSL_css_match s) (\<lambda>values.
               case values of
                 None \<Rightarrow> Inl ValueError
               | Some vs \<Rightarrow>
                   bindE (unpack4 vs) (\<lambda>(h, s, l, a).
                     Inr (set_a a (hsl_set_l l (hsl_set_s s (hsl_set_h h (blank CS_HSL))))))))
     | PySeq xs \<Rightarrow>
         (if \<not> (3 \<le> length xs \<and> length xs \<le> 4) then Inl ValueError
          else Inr (set_a (if length xs = 3 then 1 else clamp (xs ! 3) 0 1)
                     (hsl_set_l (clamp (xs ! 2) 0 1)
                       (hsl_set_s (clamp (xs ! 1) 0 1)
                         (hsl_set_h (clamp (xs ! 0) 0 1) (blank CS_HSL))))))
     | _ \<Rightarrow> Inl TypeError)"

definition HWB_init :: "pyarg \<Rightarrow> error + color" where
  "HWB_init color =
    (case color of
       PyColor x \<Rightarrow>
         (case cls x of
            CS_HWB \<Rightarrow>
              Inr (set_a (c0 x) (hwb_set_b (c3 x) (hwb_set_w (c2 x) (hwb_set_h (c1 x) (blank CS_HWB)))))
          | CS_RGB \<Rightarrow>
              bindE (rgb_to_hwb (c1 x) (c2 x) (c3 x)) (\<lambda>(h, w, b).
                 Inr (set_a (c0 x) (hwb_set_b b (hwb_set_w w (hwb_set_h h (blank CS_HWB))))))
          | CS_HSL \<Rightarrow>
              bindE (hsl_to_hwb (c1 x) (c2 x) (c3 x)) (\<lambda>(h, w, b).
                 Inr (set_a (c0 x) (hwb_set_b b (hwb_set_w w (hwb_set_h h (blank CS_HWB)))))))
     | PyStr s \<Rightarrow>
         (let s = (if is_None color then HWB_DEF_BG else s)
          in bindE (HWB_css_match s) (\<lambda>values.
               case values of
                 None \<Rightarrow> Inl ValueError
               | Some vs \<Rightarrow>
                   bindE (unpack4 vs) (\<lambda>(h, w, b, a).
                     Inr (set_a a (hwb_set_b b (hwb_set_w w (hwb_set_h h (blank CS_HWB))))))))
     | PySeq xs \<Rightarrow>
         (if \<not> (3 \<le> length xs \<and> length xs \<le> 4) then Inl ValueError
          else Inr (set_a (if length xs = 3 then 1 else clamp (xs ! 3) 0 1)
                     (hwb_set_b (clamp (xs ! 2) 0 1)
                       (hwb_set_w (clamp (xs ! 1) 0 1)
                         (hwb_set_h (clamp (xs ! 0) 0 1) (blank CS_HWB))))))
     | _ \<Rightarrow> Inl TypeError)"

text \<open>\<^verbatim>\<open>type(self)(x)\<close>.\<close>

definition construct :: "(string \<Rightarrow> string option) \<Rightarrow> cspace \<Rightarrow> pyarg \<Rightarrow> error + color" where
  "construct name2hex k x =
    (case k of
       CS_RGB \<Rightarrow> RGB_init name2hex x
     | CS_HSL \<Rightarrow> HSL_init x
     | CS_HWB \<Rightarrow> HWB_init x)"

definition DEF_BG :: "cspace \<Rightarrow> string" where
  "DEF_BG k = (case k of CS_RGB \<Rightarrow> RGB_DEF_BG | CS_HSL \<Rightarrow> HSL_DEF_BG | CS_HWB \<Rightarrow> HWB_DEF_BG)"

text \<open>\<^verbatim>\<open>css_color\<close>: the first class whose \<^verbatim>\<open>css_match\<close> gives values builds the color
  from them.\<close>

definition css_color :: "(string \<Rightarrow> string option) \<Rightarrow> string \<Rightarrow> error + color" where
  "css_color name2hex string =
    bindE (RGB_css_match name2hex string) (\<lambda>v1.
      case v1 of
        Some vs \<Rightarrow> RGB_init name2hex (PySeq vs)
      | None \<Rightarrow>
          bindE (HSL_css_match string) (\<lambda>v2.
            case v2 of
              Some vs \<Rightarrow> HSL_init (PySeq vs)
            | None \<Rightarrow>
                bindE (HWB_css_match string) (\<lambda>v3.
                  case v3 of
                    Some vs \<Rightarrow> HWB_init (PySeq vs)
                  | None \<Rightarrow> Inl ValueError)))"

subsection \<open>\<^verbatim>\<open>base.py\<close>: \<^verbatim>\<open>update_from\<close>, \<^verbatim>\<open>apply_alpha\<close>\<close>

text \<open>The argument of \<^verbatim>\<open>update_from\<close> is the object itself (\<^verbatim>\<open>self is obj\<close>) or another
  object.\<close>

datatype objref = Self | Other pyarg

definition isinstance_of :: "pyarg \<Rightarrow> cspace \<Rightarrow> bool" where
  "isinstance_of x k = (case x of PyColor y \<Rightarrow> cls y = k | _ \<Rightarrow> False)"

definition coerce :: "(string \<Rightarrow> string option) \<Rightarrow> cspace \<Rightarrow> pyarg \<Rightarrow> error + color" where
  "coerce name2hex k x =
    (case x of
       PyColor y \<Rightarrow> if cls y = k then Inr y else construct name2hex k x
     | _ \<Rightarrow> construct name2hex k x)"

definition update_from :: "(string \<Rightarrow> string option) \<Rightarrow> color \<Rightarrow> objref \<Rightarrow> error + color" where
  "update_from name2hex self obj =
    (case obj of
       Self \<Rightarrow> Inr self
     | Other x \<Rightarrow>
         bindE (coerce name2hex (cls self) x) (\<lambda>y.
           Inr (set_a (c0 y) (self\<lparr>c1 := c1 y, c2 := c2 y, c3 := c3 y\<rparr>))))"

definition apply_alpha :: "(string \<Rightarrow> string option) \<Rightarrow> color \<Rightarrow> pyarg \<Rightarrow> error + color" where
  "apply_alpha name2hex self background =
    bindE (if is_None background then construct name2hex (cls self) (PyStr (DEF_BG (cls self)))
           else coerce name2hex (cls self) background) (\<lambda>bg.
      if c0 self < 1 then
        Inr (set_a 1
              (self\<lparr>c1 := mix_channel (c1 self) (c0 self) (c1 bg) (c0 bg),
                     c2 := mix_channel (c2 self) (c0 self) (c2 bg) (c0 bg),
                     c3 := mix_channel (c3 self) (c0 self) (c3 bg) (c0 bg)\<rparr>))
      else Inr self)"

subsection \<open>\<^verbatim>\<open>rgb.py\<close>: serialising\<close>

definition RGB_get_rgb :: "color \<Rightarrow> bool \<Rightarrow> string" where
  "RGB_get_rgb self comma =
    (let r = fmt_d (round_int (c1 self * 255));
         g = fmt_d (round_int (c2 self * 255));
         b = fmt_d (round_int (c3 self * 255))
     in if comma then ''rgb('' @ r @ '', '' @ g @ '', '' @ b @ '')''
        else ''rgb('' @ r @ '' '' @ g @ '' '' @ b @ '')'')"

definition RGB_get_rgba :: "color \<Rightarrow> bool \<Rightarrow> error + string" where
  "RGB_get_rgba self comma =
    (let r = fmt_d (round_int (c1 self * 255));
         g = fmt_d (round_int (c2 self * 255));
         b = fmt_d (round_int (c3 self * 255))
     in bindE (fmt_float (c0 self) 3) (\<lambda>a.
          Inr (if comma then ''rgba('' @ r @ '', '' @ g @ '', '' @ b @ '', '' @ a @ '')''
               else ''rgb('' @ r @ '' '' @ g @ '' '' @ b @ '' / '' @ a @ '')'')))"

text \<open>
  \<^verbatim>\<open>RE_COMPRESS\<close> is compiled from the text
  \<^verbatim>\<open>(?i)^#({hex})\1({hex})\2({hex})\3(?:({hex})\4)?$\<close> as it stands: nothing substitutes
  \<^verbatim>\<open>{hex}\<close>, which in a pattern is those five characters. Each group can take only that
  text, so each back reference stands for it too.
\<close>

definition RE_COMPRESS :: rexp where
  "RE_COMPRESS =
     re_cat [re_lit ''#'', re_rep 6 (re_lit ''{hex}''), re_opt (re_rep 2 (re_lit ''{hex}'')),
                re_dollar]"

text \<open>\<^verbatim>\<open>m.expand(r"#\1\2\3\4")\<close> and \<^verbatim>\<open>m.expand(r"#\1\2\3")\<close>: the groups are at the
  positions 1, 11, 21 and 31 of the matched text, five characters each.\<close>

definition RGB_get_hexa :: "color \<Rightarrow> bool \<Rightarrow> string" where
  "RGB_get_hexa self compress =
    (let v = ''#'' @ fmt_02X (round_int (c1 self * 255)) @ fmt_02X (round_int (c2 self * 255))
               @ fmt_02X (round_int (c3 self * 255)) @ fmt_02X (round_int (c0 self * 255))
     in if compress \<and> re_accepts_i RE_COMPRESS v
        then ''#'' @ slice 1 6 v @ slice 11 16 v @ slice 21 26 v @ slice 31 36 v
        else v)"

definition RGB_get_hex :: "color \<Rightarrow> bool \<Rightarrow> string" where
  "RGB_get_hex self compress =
    (let v = ''#'' @ fmt_02X (round_int (c1 self * 255)) @ fmt_02X (round_int (c2 self * 255))
               @ fmt_02X (round_int (c3 self * 255))
     in if compress \<and> re_accepts_i RE_COMPRESS v
        then ''#'' @ slice 1 6 v @ slice 11 16 v @ slice 21 26 v
        else v)"

text \<open>\<^verbatim>\<open>to_css\<close>. \<^verbatim>\<open>css_names.hex2name\<close> is not part of these sources; it is the
  parameter \<open>hex2name\<close>. The method calls \<^verbatim>\<open>_get_hexa()\<close> and \<^verbatim>\<open>_get_hex()\<close> with no
  argument, so their \<^verbatim>\<open>compress\<close> is the default \<^verbatim>\<open>False\<close>.\<close>

definition RGB_to_css ::
  "(string \<Rightarrow> string option) \<Rightarrow> color \<Rightarrow> bool \<Rightarrow> bool \<Rightarrow> bool \<Rightarrow> bool \<Rightarrow> bool \<Rightarrow> bool \<Rightarrow> error + string" where
  "RGB_to_css hex2name self alpha prefer_alpha prefer_name prefer_hex compress comma =
    (let v = '''';
         v = (if prefer_hex \<or> prefer_name then
                let h = (if alpha \<and> (prefer_alpha \<or> c0 self < 1)
                         then RGB_get_hexa self False else RGB_get_hex self False);
                    v = (if prefer_hex then h else v)
                in if prefer_name
                   then (case hex2name h of None \<Rightarrow> v | Some name \<Rightarrow> name)
                   else v
              else v)
     in if v = [] then
          (if alpha \<and> (prefer_alpha \<or> c0 self < 1)
           then RGB_get_rgba self comma
           else Inr (RGB_get_rgb self comma))
        else Inr v)"

subsection \<open>\<^verbatim>\<open>__init__.py\<close>: \<^verbatim>\<open>_ColorUtil\<close>\<close>

definition get_luminance :: "(string \<Rightarrow> string option) \<Rightarrow> color \<Rightarrow> error + real" where
  "get_luminance name2hex self =
    bindE (RGB_init name2hex (PyColor self)) (\<lambda>rgb.
      Inr (clamp (of_int (round_int (299 / 1000 * (c1 rgb * 255) + 587 / 1000 * (c2 rgb * 255)
                                     + 114 / 1000 * (c3 rgb * 255)))) 0 255))"

text \<open>\<^verbatim>\<open>brightness\<close> calls the bare name \<^verbatim>\<open>clamp\<close>, and \<^verbatim>\<open>blend\<close> reads the bare
  name \<^verbatim>\<open>SCALE_PERCENT\<close>; \<^verbatim>\<open>__init__.py\<close> binds neither (both are names of
  \<^verbatim>\<open>util\<close>).\<close>

definition get_overage :: "real \<Rightarrow> real \<times> real" where
  "get_overage c =
    (if c < 0 then (0 + c, 0)
     else if c > 255 then (c - 255, 255)
     else (0, c))"

text \<open>\<^verbatim>\<open>_distribute_overage(c, o, s)\<close>: \<open>c\<close> holds the three components, \<open>ov\<close> is the
  overage \<^verbatim>\<open>o\<close>, \<open>s\<close> is the set
  of the channel names still open, kept as a list without repetition.\<close>

definition distribute_overage :: "real list \<Rightarrow> real \<Rightarrow> string list \<Rightarrow> real list" where
  "distribute_overage c ov s =
    (let channels = length s
     in if channels = 0 then c
        else
          let parts = ov / real (length s)
          in if ''r'' \<in> set s \<and> ''g'' \<in> set s then [c ! 0 + parts, c ! 1 + parts, c ! 2]
             else if ''r'' \<in> set s \<and> ''b'' \<in> set s then [c ! 0 + parts, c ! 1, c ! 2 + parts]
             else if ''g'' \<in> set s \<and> ''b'' \<in> set s then [c ! 0, c ! 1 + parts, c ! 2 + parts]
             else if ''r'' \<in> set s then [c ! 0 + parts, c ! 1, c ! 2]
             else if ''g'' \<in> set s then [c ! 0, c ! 1 + parts, c ! 2]
             else [c ! 0, c ! 1, c ! 2 + parts])"

text \<open>One round of the loop \<^verbatim>\<open>for c in channels\<close> of \<^verbatim>\<open>brightness\<close>, on the components,
  the open slots and \<^verbatim>\<open>count\<close>.\<close>

definition brightness_step :: "string \<Rightarrow> real list \<times> string list \<times> nat \<Rightarrow> real list \<times> string list \<times> nat" where
  "brightness_step c st =
    (case st of (components, slots, count) \<Rightarrow>
       (case get_overage (components ! count) of (overage, v) \<Rightarrow>
          let components = components[count := v]
          in if overage \<noteq> 0
             then (let slots = removeAll c slots
                   in (distribute_overage components overage slots, slots, count + 1))
             else (components, slots, count + 1)))"

definition brightness :: "(string \<Rightarrow> string option) \<Rightarrow> color \<Rightarrow> real \<Rightarrow> error + color" where
  "brightness name2hex self factor =
    bindE (RGB_init name2hex (PyColor self)) (\<lambda>rgb.
      let channels = [''r'', ''g'', ''b'']
      in bindE (load_global init_globals ''clamp'') (\<lambda>_.
         bindE (get_luminance name2hex rgb) (\<lambda>lum.
           let total_lumes = clamp (lum + (1 * factor) - 1) 0 1;
               rgb =
                 (if total_lumes = 1 then rgb_set_b 1 (rgb_set_g 1 (rgb_set_r 1 rgb))
                  else if total_lumes = 0 then rgb_set_b 0 (rgb_set_g 0 (rgb_set_r 0 rgb))
                  else
                    let pts = total_lumes - 299 / 1000 * c1 rgb - 587 / 1000 * c2 rgb
                                - 114 / 1000 * c3 rgb;
                        slots = channels;
                        components = [c1 rgb + pts, c2 rgb + pts, c3 rgb + pts];
                        count = 0
                    in case fold brightness_step channels (components, slots, count) of
                         (components, slots, count) \<Rightarrow>
                           rgb_set_b (components ! 2)
                             (rgb_set_g (components ! 1) (rgb_set_r (components ! 0) rgb)))
           in update_from name2hex self (Other (PyColor rgb)))))"

text \<open>The color space selectors \<^verbatim>\<open>CS_RGB = 0\<close>, \<^verbatim>\<open>CS_HSL = 1\<close>, \<^verbatim>\<open>CS_HWB = 2\<close>.\<close>

definition cs_code :: "cspace \<Rightarrow> int" where
  "cs_code k = (case k of CS_RGB \<Rightarrow> 0 | CS_HSL \<Rightarrow> 1 | CS_HWB \<Rightarrow> 2)"

text \<open>Reading \<^verbatim>\<open>color.w\<close> and \<^verbatim>\<open>color.b\<close> of an object that the \<^verbatim>\<open>CS_HWB\<close> branch of
  \<^verbatim>\<open>blend\<close> has built with \<^verbatim>\<open>HSL(color)\<close>: an \<^verbatim>\<open>HSL\<close> object has no such attribute.\<close>

definition get_w :: "color \<Rightarrow> error + real" where
  "get_w x = (if cls x = CS_HWB then Inr (c2 x) else Inl (AttributeError ''w''))"

definition get_b :: "color \<Rightarrow> error + real" where
  "get_b x = (if cls x = CS_HSL then Inl (AttributeError ''b'') else Inr (c3 x))"

text \<open>
  \<^verbatim>\<open>blend\<close>. \<open>this\<close> is \<^verbatim>\<open>self\<close> itself when \<^verbatim>\<open>self\<close> is of the chosen class: the
  setters then change \<^verbatim>\<open>self\<close>, and \<^verbatim>\<open>update_from\<close> gets \<^verbatim>\<open>self\<close>. Otherwise it is a new
  object. \<open>HSL_WORKAROUND\<close> is the
  host's flag of \<open>hue_blend_channel\<close>.
\<close>

definition blend ::
  "(string \<Rightarrow> string option) \<Rightarrow> bool \<Rightarrow> color \<Rightarrow> pyarg \<Rightarrow> real \<Rightarrow> bool \<Rightarrow> int \<Rightarrow> error + color" where
  "blend name2hex HSL_WORKAROUND self color percent alpha color_space =
    bindE (load_global init_globals ''SCALE_PERCENT'') (\<lambda>_.
      let factor = clamp (clamp percent 0 100 * SCALE_PERCENT) 0 1
      in bindE
           (if color_space = cs_code CS_RGB then
              bindE (coerce name2hex CS_RGB color) (\<lambda>color.
              bindE (coerce name2hex CS_RGB (PyColor self)) (\<lambda>this.
                let this = rgb_set_r (rgb_blend_channel (c1 this) (c1 color) factor) this;
                    this = rgb_set_g (rgb_blend_channel (c2 this) (c2 color) factor) this;
                    this = rgb_set_b (rgb_blend_channel (c3 this) (c3 color) factor) this
                in Inr (this, color, cls self = CS_RGB)))
            else if color_space = cs_code CS_HSL then
              bindE (coerce name2hex CS_HSL color) (\<lambda>color.
              bindE (coerce name2hex CS_HSL (PyColor self)) (\<lambda>this.
                let this = hsl_set_h (hue_blend_channel HSL_WORKAROUND (c1 this) (c1 color) factor) this;
                    this = hsl_set_l (percent_blend_channel (c3 this) (c3 color) factor) this;
                    this = hsl_set_s (percent_blend_channel (c2 this) (c2 color) factor) this
                in Inr (this, color, cls self = CS_HSL)))
            else if color_space = cs_code CS_HWB then
              bindE (if isinstance_of color CS_HWB then coerce name2hex CS_HWB color
                     else HSL_init color) (\<lambda>color.
              bindE (coerce name2hex CS_HWB (PyColor self)) (\<lambda>this.
                let this = hwb_set_h (hue_blend_channel HSL_WORKAROUND (c1 this) (c1 color) factor) this
                in bindE (get_w color) (\<lambda>cw.
                     let this = hwb_set_w (percent_blend_channel (c2 this) cw factor) this
                     in bindE (get_b color) (\<lambda>cb.
                          let this = hwb_set_b (percent_blend_channel (c3 this) cb factor) this
                          in Inr (this, color, cls self = CS_HWB)))))
            else Inl ValueError)
           (\<lambda>(this, color, this_is_self).
              let this = (if alpha then set_a (rgb_blend_channel (c0 this) (c0 color) factor) this
                          else this)
              in if this_is_self then update_from name2hex this Self
                 else update_from name2hex self (Other (PyColor this))))"

section \<open>Properties\<close>

subsection \<open>HWB to RGB\<close>

text \<open>
  Claim C6 says that \<^verbatim>\<open>hwb_to_rgb\<close> is total on \<open>[0,1]\<^sup>3\<close> and that the division in
  \<open>s = 1 - w / (1 - b)\<close> is guarded at \<open>b = 1\<close>. The code has no guard: for every hue, whiteness
  \<open>0\<close> and blackness \<open>1\<close> (pure black) the sum \<open>w + b\<close> is not above \<open>1\<close>, nothing is
  rescaled, and \<open>w / (1.0 - b)\<close> raises \<^verbatim>\<open>ZeroDivisionError\<close>.
\<close>

theorem hwb_to_rgb_black_raises:
  "hwb_to_rgb h 0 1 = Inl ZeroDivisionError"
  by (simp add: hwb_to_rgb_def bindE_def fdiv_def)

subsection \<open>Names that no module binds\<close>

lemma fmt_float_raises: "fmt_float f p = Inl (NameError ''RE_FLOAT_TRIM'')"
  by (simp add: fmt_float_def load_global_def util_globals_def bindE_def Let_def)

lemma init_clamp_unbound: "load_global init_globals ''clamp'' = Inl (NameError ''clamp'')"
  by (simp add: load_global_def init_globals_def)

lemma init_scale_percent_unbound:
  "load_global init_globals ''SCALE_PERCENT'' = Inl (NameError ''SCALE_PERCENT'')"
  by (simp add: load_global_def init_globals_def)

lemma base_op_scale_unbound:
  "load_global base_globals ''OP_SCALE'' = Inl (NameError ''OP_SCALE'')"
  by (simp add: load_global_def base_globals_def)

lemma bindE_Inl [simp]: "bindE (Inl e) f = Inl e"
  by (simp add: bindE_def)

lemma bindE_Inr [simp]: "bindE (Inr v) f = f v"
  by (simp add: bindE_def)

subsection \<open>Parsing and serialising\<close>

lemma hex_red_accepted: "re_accepts_i RGB_CSS_MATCH ''#ff0000''"
  by code_simp

lemma hex_red_not_rgb: "\<not> startswith ''#ff0000'' ''rgb''"
  by code_simp

lemma hex_red_prefix: "re_accepts_prefix_i HEX_MATCH ''#ff0000''"
  by code_simp

lemma hex_of_red: "RGB_get_hex \<lparr>cls = CS_RGB, c1 = 1, c2 = 0, c3 = 0, c0 = 1\<rparr> False = ''#FF0000''"
  by code_simp

lemma derivs_RNone: "derivs RNone s = RNone"
  by (induction s) simp_all

lemma compress_needs_brace:
  "c \<noteq> CHR ''{'' \<Longrightarrow> deriv c (deriv CHR ''#'' RE_COMPRESS) = RNone"
  by (simp add: RE_COMPRESS_def eval_nat_numeral)

lemma hex_of_nat_head: "\<exists>x xs. hex_of_nat n = x # xs \<and> x \<in> set ''0123456789ABCDEF''"
proof (induction n rule: hex_of_nat.induct)
  case (1 n)
  show ?case
  proof (cases "n < 16")
    case True
    then have "''0123456789ABCDEF'' ! n \<in> set ''0123456789ABCDEF''"
      by (intro nth_mem) simp
    with True show ?thesis by (subst hex_of_nat.simps) simp
  next
    case False
    with 1 obtain x xs where "hex_of_nat (n div 16) = x # xs" "x \<in> set ''0123456789ABCDEF''"
      by blast
    with False show ?thesis by (subst hex_of_nat.simps) simp
  qed
qed

lemma fmt_02X_head: "\<exists>x xs. fmt_02X n = x # xs \<and> lower_ascii x \<noteq> CHR ''{''"
proof -
  obtain x xs where h: "hex_of_nat (nat n) = x # xs" "x \<in> set ''0123456789ABCDEF''"
    using hex_of_nat_head by blast
  from h(2) have l: "lower_ascii x \<noteq> CHR ''{''" by (auto simp: lower_ascii_def)
  have m: "lower_ascii CHR ''-'' \<noteq> CHR ''{''" "lower_ascii CHR ''0'' \<noteq> CHR ''{''"
    by (simp_all add: lower_ascii_def)
  show ?thesis
  proof (cases "n < 0")
    case True
    with m show ?thesis by (simp add: fmt_02X_def)
  next
    case False
    with h l m show ?thesis by (simp add: fmt_02X_def Let_def)
  qed
qed

lemma compress_rejects_hex: "\<not> re_accepts_i RE_COMPRESS (''#'' @ fmt_02X n @ rest)"
proof -
  obtain x xs where h: "fmt_02X n = x # xs" "lower_ascii x \<noteq> CHR ''{''"
    using fmt_02X_head by blast
  have "lower_ascii CHR ''#'' = CHR ''#''" by (simp add: lower_ascii_def)
  with h show ?thesis
    by (simp add: re_accepts_i_def re_accepts_def compress_needs_brace derivs_RNone)
qed

lemma get_hex_never_compresses:
  "RGB_get_hex self True = RGB_get_hex self False
   \<and> RGB_get_hexa self True = RGB_get_hexa self False"
  using compress_rejects_hex [of "round_int (c1 self * 255)"]
  by (simp add: RGB_get_hex_def RGB_get_hexa_def Let_def)

text \<open>
  Claim C1 says that parsing \<^verbatim>\<open>"#ff0000"\<close> gives the color \<open>(1, 0, 0, 1)\<close>, that
  \<^verbatim>\<open>to_css(prefer_hex=True, compress=True)\<close> of that color is \<^verbatim>\<open>"#f00"\<close>, and that a
  hexadecimal text is compressed exactly when every channel is a doubled digit. On the
  code, \<^verbatim>\<open>css_color("#ff0000")\<close> raises \<^verbatim>\<open>IndexError\<close>: the text matches \<^verbatim>\<open>CSS_MATCH\<close>,
  and \<^verbatim>\<open>_split_channels\<close> then asks for group 1 of \<^verbatim>\<open>HEX_MATCH\<close>, a pattern with no
  group. For the color \<open>(1, 0, 0, 1)\<close> built directly, \<^verbatim>\<open>to_css\<close> gives \<^verbatim>\<open>"#FF0000"\<close>: it
  never passes \<^verbatim>\<open>compress\<close> on, so its result is the same for both values of
  \<^verbatim>\<open>compress\<close>. And \<^verbatim>\<open>_get_hex\<close> and \<^verbatim>\<open>_get_hexa\<close> called with \<^verbatim>\<open>compress=True\<close> compress
  no color at all, since \<^verbatim>\<open>RE_COMPRESS\<close> asks for the characters \<^verbatim>\<open>{hex}\<close>.
\<close>

theorem parse_hex_red_raises:
  "css_color name2hex ''#ff0000'' = Inl IndexError
   \<and> RGB_to_css hex2name \<lparr>cls = CS_RGB, c1 = 1, c2 = 0, c3 = 0, c0 = 1\<rparr>
         False False False True True False = Inr ''#FF0000''
   \<and> RGB_to_css hex2name self alpha prefer_alpha prefer_name prefer_hex True comma
       = RGB_to_css hex2name self alpha prefer_alpha prefer_name prefer_hex False comma
   \<and> RGB_get_hex self True = RGB_get_hex self False
   \<and> RGB_get_hexa self True = RGB_get_hexa self False"
proof -
  have "RGB_split_channels ''#ff0000'' = Inl IndexError"
    by (simp add: RGB_split_channels_def hex_red_not_rgb hex_red_prefix HEX_MATCH_group_def
        HEX_MATCH_groups_def)
  then have a: "css_color name2hex ''#ff0000'' = Inl IndexError"
    by (simp add: css_color_def RGB_css_match_def hex_red_accepted)
  have b: "RGB_to_css hex2name \<lparr>cls = CS_RGB, c1 = 1, c2 = 0, c3 = 0, c0 = 1\<rparr>
             False False False True True False = Inr ''#FF0000''"
    by (simp add: RGB_to_css_def hex_of_red Let_def)
  have c: "RGB_to_css hex2name self alpha prefer_alpha prefer_name prefer_hex True comma
       = RGB_to_css hex2name self alpha prefer_alpha prefer_name prefer_hex False comma"
    by (simp add: RGB_to_css_def)
  from a b c get_hex_never_compresses [of self] show ?thesis by simp
qed

lemma rgb_half_accepted: "re_accepts_i RGB_CSS_MATCH ''rgb(255 0 0 / 50%)''"
  by code_simp

lemma rgb_half_channels: "RGB_split_channels ''rgb(255 0 0 / 50%)'' = Inr [1, 0, 0, 1 / 2]"
  by code_simp

text \<open>
  Claim C8 says that parsing \<^verbatim>\<open>"rgb(255 0 0 / 50%)"\<close> gives the color \<open>(1, 0, 0, 0.5)\<close>
  and that \<^verbatim>\<open>to_css(alpha=True)\<close> of it is \<^verbatim>\<open>"rgb(255 0 0 / 0.5)"\<close>. The parse is as
  claimed. \<^verbatim>\<open>to_css(alpha=True)\<close> of that color raises \<^verbatim>\<open>NameError\<close>: \<^verbatim>\<open>_get_rgba\<close>
  formats the alpha with \<^verbatim>\<open>fmt_float\<close>, which loads the name \<^verbatim>\<open>RE_FLOAT_TRIM\<close>, and the
  module binds \<^verbatim>\<open>RE_FLOAT_TRIM_RE\<close>.
\<close>

theorem serialise_half_alpha_raises:
  "css_color name2hex ''rgb(255 0 0 / 50%)''
     = Inr \<lparr>cls = CS_RGB, c1 = 1, c2 = 0, c3 = 0, c0 = 1 / 2\<rparr>
   \<and> RGB_to_css hex2name \<lparr>cls = CS_RGB, c1 = 1, c2 = 0, c3 = 0, c0 = 1 / 2\<rparr>
         True False False False False False = Inl (NameError ''RE_FLOAT_TRIM'')"
proof -
  have a: "css_color name2hex ''rgb(255 0 0 / 50%)''
     = Inr \<lparr>cls = CS_RGB, c1 = 1, c2 = 0, c3 = 0, c0 = 1 / 2\<rparr>"
    by (simp add: css_color_def RGB_css_match_def rgb_half_accepted rgb_half_channels RGB_init_def
        set_a_def rgb_set_r_def rgb_set_g_def rgb_set_b_def blank_def clamp_def)
  have b: "RGB_to_css hex2name \<lparr>cls = CS_RGB, c1 = 1, c2 = 0, c3 = 0, c0 = 1 / 2\<rparr>
         True False False False False False = Inl (NameError ''RE_FLOAT_TRIM'')"
    by (simp add: RGB_to_css_def RGB_get_rgba_def fmt_float_raises Let_def)
  from a b show ?thesis by simp
qed

subsection \<open>Constructors\<close>

text \<open>
  Claim C10. A constructor called with no argument gets \<^verbatim>\<open>None\<close>, which is none of the
  accepted kinds: each of the three raises \<^verbatim>\<open>TypeError\<close>. The test \<^verbatim>\<open>color is None\<close>
  stands inside the branch for a \<^verbatim>\<open>str\<close>, where it is false: a text is parsed as it
  is, and the default background text is never put in its place.
\<close>

theorem init_none_type_error:
  "RGB_init name2hex PyNone = Inl TypeError
   \<and> HSL_init PyNone = Inl TypeError
   \<and> HWB_init PyNone = Inl TypeError
   \<and> \<not> is_None (PyStr s)
   \<and> RGB_init name2hex (PyStr s) =
       bindE (RGB_css_match name2hex s) (\<lambda>values.
         case values of
           None \<Rightarrow> Inl ValueError
         | Some vs \<Rightarrow> bindE (unpack4 vs) (\<lambda>(r, g, b, a).
             Inr (set_a a (rgb_set_b b (rgb_set_g g (rgb_set_r r (blank CS_RGB)))))))
   \<and> HSL_init (PyStr s) =
       bindE (HSL_css_match s) (\<lambda>values.
         case values of
           None \<Rightarrow> Inl ValueError
         | Some vs \<Rightarrow> bindE (unpack4 vs) (\<lambda>(h, s, l, a).
             Inr (set_a a (hsl_set_l l (hsl_set_s s (hsl_set_h h (blank CS_HSL)))))))
   \<and> HWB_init (PyStr s) =
       bindE (HWB_css_match s) (\<lambda>values.
         case values of
           None \<Rightarrow> Inl ValueError
         | Some vs \<Rightarrow> bindE (unpack4 vs) (\<lambda>(h, w, b, a).
             Inr (set_a a (hwb_set_b b (hwb_set_w w (hwb_set_h h (blank CS_HWB)))))))"
  by (simp add: RGB_init_def HSL_init_def HWB_init_def is_None_def)

subsection \<open>HWB to HSL\<close>

text \<open>
  Claim C3 says that an HSL color built from an HWB color holds
  \<^verbatim>\<open>rgb_to_hsl(hwb_to_rgb(h, w, b))\<close>. The constructor calls \<^verbatim>\<open>hwb_to_hsl\<close>, whose last
  line is \<^verbatim>\<open>return rgb_to_hwb(r, g, b)\<close>: the channels it stores are again the HWB ones.
  For pure red, HWB \<open>(0, 0, 0)\<close>, the object gets \<open>h = 0, s = 0, l = 0\<close>, and the HSL
  channels of that color are \<open>(0, 1, 1/2)\<close>.
\<close>

theorem hsl_of_hwb_red_is_hwb:
  "HSL_init (PyColor \<lparr>cls = CS_HWB, c1 = 0, c2 = 0, c3 = 0, c0 = 1\<rparr>)
     = Inr \<lparr>cls = CS_HSL, c1 = 0, c2 = 0, c3 = 0, c0 = 1\<rparr>
   \<and> bindE (hwb_to_rgb 0 0 0) (\<lambda>(r, g, b). rgb_to_hsl r g b) = Inr (0, 1, 1 / 2)
   \<and> hwb_to_hsl h w b = bindE (hwb_to_rgb h w b) (\<lambda>(r, g, b). rgb_to_hwb r g b)"
proof -
  have r: "hwb_to_rgb 0 0 0 = Inr (1, 0, 0)"
    by (simp add: hwb_to_rgb_def fdiv_def hsv_to_rgb_def py_int_of_float_def clamp_def Let_def)
  have w: "rgb_to_hwb 1 0 0 = Inr (0, 0, 0)"
    by (simp add: rgb_to_hwb_def rgb_to_hsv_def fdiv_def Let_def)
  have l: "rgb_to_hsl 1 0 0 = Inr (0, 1, 1 / 2)"
    by (simp add: rgb_to_hsl_def rgb_to_hls_def fdiv_def Let_def)
  have a: "HSL_init (PyColor \<lparr>cls = CS_HWB, c1 = 0, c2 = 0, c3 = 0, c0 = 1\<rparr>)
     = Inr \<lparr>cls = CS_HSL, c1 = 0, c2 = 0, c3 = 0, c0 = 1\<rparr>"
    by (simp add: HSL_init_def hwb_to_hsl_def r w set_a_def hsl_set_h_def hsl_set_s_def
        hsl_set_l_def blank_def clamp_def)
  have b: "bindE (hwb_to_rgb 0 0 0) (\<lambda>(r, g, b). rgb_to_hsl r g b) = Inr (0, 1, 1 / 2)"
    by (simp add: r l)
  have c: "hwb_to_hsl h w b = bindE (hwb_to_rgb h w b) (\<lambda>(r, g, b). rgb_to_hwb r g b)"
    by (simp add: hwb_to_hsl_def)
  from a b c show ?thesis by simp
qed

subsection \<open>Blend and brightness\<close>

text \<open>
  Claim C4 says that \<^verbatim>\<open>blend(a, a, p)\<close> returns normally, with a color equal to \<open>a\<close>.
  The first statement of \<^verbatim>\<open>blend\<close> reads the bare name \<^verbatim>\<open>SCALE_PERCENT\<close>, which
  \<^verbatim>\<open>__init__.py\<close> does not bind (it is \<^verbatim>\<open>util.SCALE_PERCENT\<close>): every call raises
  \<^verbatim>\<open>NameError\<close>, whatever the colors, the percent, the flag and the color space.
\<close>

theorem blend_raises_name_error:
  "blend name2hex HSL_WORKAROUND self color percent alpha color_space
     = Inl (NameError ''SCALE_PERCENT'')"
  by (simp add: blend_def init_scale_percent_unbound)

text \<open>
  Claim C5 describes what \<^verbatim>\<open>brightness(factor)\<close> computes. The method builds \<^verbatim>\<open>RGB(self)\<close>
  and then calls the bare name \<^verbatim>\<open>clamp\<close>, which \<^verbatim>\<open>__init__.py\<close> does not bind (it is
  \<^verbatim>\<open>util.clamp\<close>): no call returns, and on a gray RGB color with factor \<open>1.2\<close> the
  exception is \<^verbatim>\<open>NameError\<close>.
\<close>

theorem brightness_never_returns:
  "isl (brightness name2hex self factor)
   \<and> brightness name2hex \<lparr>cls = CS_RGB, c1 = 1 / 2, c2 = 1 / 2, c3 = 1 / 2, c0 = 1\<rparr> (6 / 5)
       = Inl (NameError ''clamp'')"
proof -
  have a: "isl (brightness name2hex self factor)"
    by (cases "RGB_init name2hex (PyColor self)")
       (simp_all add: brightness_def init_clamp_unbound Let_def)
  have b: "brightness name2hex \<lparr>cls = CS_RGB, c1 = 1 / 2, c2 = 1 / 2, c3 = 1 / 2, c0 = 1\<rparr> (6 / 5)
       = Inl (NameError ''clamp'')"
    by (simp add: brightness_def RGB_init_def init_clamp_unbound Let_def)
  from a b show ?thesis by simp
qed

subsection \<open>Alpha compositing\<close>

lemma rgb_default_bg: "RGB_css_match name2hex RGB_DEF_BG = Inr (Some [0, 0, 0, 1])"
proof -
  have a: "re_accepts_i RGB_CSS_MATCH RGB_DEF_BG" by code_simp
  have b: "RGB_split_channels RGB_DEF_BG = Inr [0, 0, 0, 1]" by code_simp
  show ?thesis by (simp add: RGB_css_match_def a b)
qed

lemma hsl_default_bg: "HSL_css_match HSL_DEF_BG = Inr (Some [0, 0, 0, 1])"
  by code_simp

lemma hwb_default_bg: "HWB_css_match HWB_DEF_BG = Inr (Some [0, 0, 0, 1])"
  by code_simp

lemma default_bg_constructs: "\<exists>y. construct name2hex k (PyStr (DEF_BG k)) = Inr y"
  by (cases k)
     (simp_all add: construct_def DEF_BG_def RGB_init_def HSL_init_def HWB_init_def is_None_def
        rgb_default_bg hsl_default_bg hwb_default_bg unpack4_def)

lemma hex_black_accepted: "re_accepts_i RGB_CSS_MATCH ''#000000''"
  by code_simp

lemma hex_black_not_rgb: "\<not> startswith ''#000000'' ''rgb''"
  by code_simp

lemma hex_black_prefix: "re_accepts_prefix_i HEX_MATCH ''#000000''"
  by code_simp

text \<open>
  Claim C9 says that \<^verbatim>\<open>apply_alpha\<close> on a color whose alpha is exactly \<open>1\<close> returns the
  color unchanged, with any background or none. With no background it does: on an opaque
  red the default background text parses and the color comes back as it is. But
  \<^verbatim>\<open>apply_alpha\<close> makes the background an object of the subject's class before it looks at
  the alpha, and that conversion fails on valid backgrounds: for an opaque RGB red, the
  background HWB \<open>(0, 0, 1)\<close> (black) raises \<^verbatim>\<open>ZeroDivisionError\<close> in \<^verbatim>\<open>hwb_to_rgb\<close>, and the
  background \<^verbatim>\<open>"#000000"\<close> raises \<^verbatim>\<open>IndexError\<close> in \<^verbatim>\<open>_split_channels\<close>.
\<close>

theorem apply_alpha_opaque_raises:
  "apply_alpha name2hex \<lparr>cls = CS_RGB, c1 = 1, c2 = 0, c3 = 0, c0 = 1\<rparr>
       (PyColor \<lparr>cls = CS_HWB, c1 = 0, c2 = 0, c3 = 1, c0 = 1\<rparr>)
     = Inl ZeroDivisionError
   \<and> apply_alpha name2hex \<lparr>cls = CS_RGB, c1 = 1, c2 = 0, c3 = 0, c0 = 1\<rparr> (PyStr ''#000000'')
     = Inl IndexError
   \<and> apply_alpha name2hex \<lparr>cls = CS_RGB, c1 = 1, c2 = 0, c3 = 0, c0 = 1\<rparr> PyNone
     = Inr \<lparr>cls = CS_RGB, c1 = 1, c2 = 0, c3 = 0, c0 = 1\<rparr>"
proof -
  have z: "hwb_to_rgb 0 0 1 = Inl ZeroDivisionError"
    by (simp add: hwb_to_rgb_def fdiv_def)
  have a: "apply_alpha name2hex \<lparr>cls = CS_RGB, c1 = 1, c2 = 0, c3 = 0, c0 = 1\<rparr>
       (PyColor \<lparr>cls = CS_HWB, c1 = 0, c2 = 0, c3 = 1, c0 = 1\<rparr>)
     = Inl ZeroDivisionError"
    by (simp add: apply_alpha_def is_None_def coerce_def construct_def RGB_init_def z)
  have "RGB_split_channels ''#000000'' = Inl IndexError"
    by (simp add: RGB_split_channels_def hex_black_not_rgb hex_black_prefix HEX_MATCH_group_def
        HEX_MATCH_groups_def)
  then have b: "apply_alpha name2hex \<lparr>cls = CS_RGB, c1 = 1, c2 = 0, c3 = 0, c0 = 1\<rparr>
       (PyStr ''#000000'') = Inl IndexError"
    by (simp add: apply_alpha_def is_None_def coerce_def construct_def RGB_init_def
        RGB_css_match_def hex_black_accepted)
  obtain y where "construct name2hex CS_RGB (PyStr (DEF_BG CS_RGB)) = Inr y"
    using default_bg_constructs by blast
  then have c: "apply_alpha name2hex \<lparr>cls = CS_RGB, c1 = 1, c2 = 0, c3 = 0, c0 = 1\<rparr> PyNone
     = Inr \<lparr>cls = CS_RGB, c1 = 1, c2 = 0, c3 = 0, c0 = 1\<rparr>"
    by (simp add: apply_alpha_def is_None_def)
  from a b c show ?thesis by simp
qed

end
